theory Spec2Isabelle
  imports Main
begin

section \<open>EdgeLint: the rule-based analyzer of \<open>src/tools.ts\<close>\<close>

text \<open>
  The development embeds the \<open>execute\<close> function of the tool \<open>analyzeWorkerCode\<close>
  (\<open>src/tools.ts\<close>, lines 121 to 287): the rules that push onto \<open>issues\<close>, and the
  rendering of \<open>issues\<close> into the report string.
\<close>

subsection \<open>JavaScript strings\<close>

text \<open>
  A JavaScript string is a sequence of UTF-16 code units; \<open>includes\<close> and the regular
  expressions of the source (which carry no \<open>u\<close> flag) work on code units. A code unit
  is modelled as a natural number; the model never needs the bound \<open>65536\<close>, so every
  statement about all \<open>js_string\<close>s covers all JavaScript strings. \<open>lit\<close> turns an ASCII
  literal into its code units.
\<close>

type_synonym js_string = "nat list"

definition lit :: "string \<Rightarrow> js_string" where
  "lit s = map of_char s"

text \<open>\<open>s.startsWith(p)\<close>, used for matching at a position.\<close>

fun startsWith :: "js_string \<Rightarrow> js_string \<Rightarrow> bool" where
  "startsWith s [] = True"
| "startsWith [] (p # ps) = False"
| "startsWith (c # cs) (p # ps) = (c = p \<and> startsWith cs ps)"

text \<open>\<open>s.includes(p)\<close>: \<open>p\<close> occurs in \<open>s\<close> at some position.\<close>

fun includes_str :: "js_string \<Rightarrow> js_string \<Rightarrow> bool" where
  "includes_str [] p = (p = [])"
| "includes_str (c # cs) p = (startsWith (c # cs) p \<or> includes_str cs p)"

text \<open>The template \<open>${n}\<close> of a non-negative integer: its decimal digits.\<close>

function num_str :: "nat \<Rightarrow> js_string" where
  "num_str n = (if n < 10 then [48 + n] else num_str (n div 10) @ [48 + n mod 10])"
  by pat_completeness auto
termination
  by (relation "measure (\<lambda>n. n)") auto

declare num_str.simps [simp del]

subsection \<open>The character classes and the two regular expressions\<close>

text \<open>
  \<open>\s\<close> is ECMAScript's WhiteSpace and LineTerminator: TAB, LF, VT, FF, CR, SP, NBSP,
  U+1680, U+2000 to U+200A, U+2028, U+2029, U+202F, U+205F, U+3000 and U+FEFF.
  \<open>\w\<close> is \<open>[A-Za-z0-9_]\<close>. With the \<open>m\<close> flag, \<open>^\<close> matches at the start of the text
  and after each LineTerminator (LF, CR, U+2028, U+2029).
\<close>

definition is_space :: "nat \<Rightarrow> bool" where
  "is_space u \<longleftrightarrow>
     (9 \<le> u \<and> u \<le> 13) \<or> u = 32 \<or> u = 160 \<or> u = 5760 \<or> (8192 \<le> u \<and> u \<le> 8202) \<or>
     u = 8232 \<or> u = 8233 \<or> u = 8239 \<or> u = 8287 \<or> u = 12288 \<or> u = 65279"

definition is_word :: "nat \<Rightarrow> bool" where
  "is_word u \<longleftrightarrow>
     (65 \<le> u \<and> u \<le> 90) \<or> (97 \<le> u \<and> u \<le> 122) \<or> (48 \<le> u \<and> u \<le> 57) \<or> u = 95"

definition is_line_terminator :: "nat \<Rightarrow> bool" where
  "is_line_terminator u \<longleftrightarrow> u = 10 \<or> u = 13 \<or> u = 8232 \<or> u = 8233"

text \<open>
  \<open>/^(let|var|const)\s+\w+\s*=/m\<close>. \<open>decl_rest\<close> matches \<open>\s+\w+\s*=\<close> at the start of a
  string. The three classes \<open>\s\<close>, \<open>\w\<close> and \<open>=\<close> are pairwise disjoint, so each
  quantifier can only succeed on the longest run: taking the longest run is the same as
  backtracking. \<open>decl_at\<close> tries the three alternatives at one position, and
  \<open>global_state_search\<close> tries every position where \<open>^\<close> matches; its first argument
  says whether the current position is such a position. \<open>code.match(...)\<close> is used for
  its truth value only: \<open>match_global_state\<close> is True where the source gets a match array
  and False where it gets \<open>null\<close>.
\<close>

definition decl_rest :: "js_string \<Rightarrow> bool" where
  "decl_rest s =
     (let r1 = dropWhile is_space s;
          r2 = dropWhile is_word r1;
          r3 = dropWhile is_space r2
      in length r1 < length s \<and> length r2 < length r1 \<and> startsWith r3 [61])"

definition decl_at :: "js_string \<Rightarrow> bool" where
  "decl_at s =
     list_ex (\<lambda>kw. startsWith s kw \<and> decl_rest (drop (length kw) s))
       [lit ''let'', lit ''var'', lit ''const'']"

fun global_state_search :: "bool \<Rightarrow> js_string \<Rightarrow> bool" where
  "global_state_search bol [] = (bol \<and> decl_at [])"
| "global_state_search bol (c # cs) =
     ((bol \<and> decl_at (c # cs)) \<or> global_state_search (is_line_terminator c) cs)"

definition match_global_state :: "js_string \<Rightarrow> bool" where
  "match_global_state code = global_state_search True code"

text \<open>
  \<open>/async\s+\w+/g\<close>. \<open>async_at\<close> gives the text matched at the start of a string, if
  any (both quantifiers are greedy, and \<open>\s\<close> and \<open>\w\<close> are disjoint). With the \<open>g\<close>
  flag \<open>match\<close> returns all matches from left to right, each search starting where the
  previous match ended, or \<open>null\<close> when there is none. The first argument of
  \<open>async_scan\<close> counts the code units of the previous match still to skip.
\<close>

definition async_at :: "js_string \<Rightarrow> js_string option" where
  "async_at s =
     (if startsWith s (lit ''async'') then
        (let r0 = drop 5 s;
             ws = takeWhile is_space r0;
             w = takeWhile is_word (dropWhile is_space r0)
         in if ws \<noteq> [] \<and> w \<noteq> [] then Some (lit ''async'' @ ws @ w) else None)
      else None)"

fun async_scan :: "nat \<Rightarrow> js_string \<Rightarrow> js_string list" where
  "async_scan k [] = []"
| "async_scan k (c # cs) =
     (if 0 < k then async_scan (k - 1) cs
      else case async_at (c # cs) of
             Some m \<Rightarrow> m # async_scan (length m - 1) cs
           | None \<Rightarrow> async_scan 0 cs)"

definition match_async :: "js_string \<Rightarrow> js_string list option" where
  "match_async code = (case async_scan 0 code of [] \<Rightarrow> None | m # ms \<Rightarrow> Some (m # ms))"

subsection \<open>Issues\<close>

text \<open>
  The element type of \<open>issues\<close>:
  \<^verbatim>\<open>{ severity: string; title: string; description: string; line?: number }\<close>.
  No rule sets \<open>line\<close>.
\<close>

record issue =
  severity :: js_string
  title :: js_string
  description :: js_string
  line :: "nat option"

definition mk_issue :: "js_string \<Rightarrow> js_string \<Rightarrow> js_string \<Rightarrow> issue" where
  "mk_issue s t d = \<lparr>severity = s, title = t, description = d, line = None\<rparr>"

subsection \<open>The rules, in the order of the source\<close>

text \<open>Every rule takes the text and the issues so far and returns the issues after its \<open>push\<close>.\<close>

definition nodeAPIs :: "js_string list" where
  "nodeAPIs = map lit
     [''fs'', ''path'', ''crypto'', ''os'', ''process'', ''child_process'',
      ''cluster'', ''dns'', ''http'', ''https'', ''net'', ''tls'', ''stream'',
      ''buffer'', ''events'', ''util'', ''url'', ''querystring'', ''zlib'']"

text \<open>The four templates of the condition: \<open>from '${api}'\<close>, \<open>from "${api}"\<close>,
  \<open>require('${api}')\<close> and \<open>require("${api}")\<close> (39 is the single quote, 34 the double
  quote).\<close>

definition from_single :: "js_string \<Rightarrow> js_string" where
  "from_single api = lit ''from '' @ [39] @ api @ [39]"

definition from_double :: "js_string \<Rightarrow> js_string" where
  "from_double api = lit ''from '' @ [34] @ api @ [34]"

definition require_single :: "js_string \<Rightarrow> js_string" where
  "require_single api = lit ''require('' @ [39] @ api @ [39] @ lit '')''"

definition require_double :: "js_string \<Rightarrow> js_string" where
  "require_double api = lit ''require('' @ [34] @ api @ [34] @ lit '')''"

definition references_module :: "js_string \<Rightarrow> js_string \<Rightarrow> bool" where
  "references_module code api \<longleftrightarrow>
     includes_str code (from_single api) \<or> includes_str code (from_double api) \<or>
     includes_str code (require_single api) \<or> includes_str code (require_double api)"

definition node_api_issue :: "js_string \<Rightarrow> issue" where
  "node_api_issue api =
     mk_issue (lit ''CRITICAL'')
       (lit ''Node.js '' @ [39] @ api @ [39] @ lit '' module not available'')
       (lit ''Workers run in V8 isolates without Node.js APIs. Replace '' @ [39] @ api @ [39] @
        lit '' with Workers-compatible alternatives.'')"

definition check_node_apis :: "js_string \<Rightarrow> issue list \<Rightarrow> issue list" where
  "check_node_apis code issues =
     foldl (\<lambda>acc api. if references_module code api then acc @ [node_api_issue api] else acc)
       issues nodeAPIs"

definition blockingOps :: "(js_string \<times> js_string) list" where
  "blockingOps =
     [(lit ''readFileSync'', lit ''Use KV.get() or R2 fetch with await''),
      (lit ''writeFileSync'', lit ''Use KV.put() or R2 put with await''),
      (lit ''execSync'', lit ''Not supported - rethink your architecture''),
      (lit ''readSync'', lit ''Use async operations with await'')]"

definition blocking_issue :: "js_string \<times> js_string \<Rightarrow> issue" where
  "blocking_issue op =
     mk_issue (lit ''CRITICAL'')
       (lit ''Synchronous operation: '' @ fst op @ lit ''()'')
       (lit ''Blocking operations hurt edge performance. '' @ snd op)"

definition check_blocking_ops :: "js_string \<Rightarrow> issue list \<Rightarrow> issue list" where
  "check_blocking_ops code issues =
     foldl (\<lambda>acc op. if includes_str code (fst op) then acc @ [blocking_issue op] else acc)
       issues blockingOps"

definition timer_issue :: issue where
  "timer_issue =
     mk_issue (lit ''WARNING'') (lit ''Timers not supported in Workers'')
       (lit ''setTimeout/setInterval won't work. Use Durable Objects Alarms for scheduled tasks, or Workflows for delayed execution.'')"

definition check_timers :: "js_string \<Rightarrow> issue list \<Rightarrow> issue list" where
  "check_timers code issues =
     (if includes_str code (lit ''setTimeout'') \<or> includes_str code (lit ''setInterval'')
      then issues @ [timer_issue] else issues)"

definition global_state_issue :: issue where
  "global_state_issue =
     mk_issue (lit ''WARNING'') (lit ''Potential global state detected'')
       (lit ''Workers are stateless. Global variables reset between requests. Use Durable Objects or KV for persistence.'')"

definition check_global_state :: "js_string \<Rightarrow> issue list \<Rightarrow> issue list" where
  "check_global_state code issues =
     (if match_global_state code \<and> includes_str code (lit ''export default'')
      then issues @ [global_state_issue] else issues)"

definition error_handling_issue :: issue where
  "error_handling_issue =
     mk_issue (lit ''WARNING'') (lit ''Missing error handling'')
       (lit ''Async operations should be wrapped in try-catch blocks to handle failures gracefully.'')"

definition check_error_handling :: "js_string \<Rightarrow> issue list \<Rightarrow> issue list" where
  "check_error_handling code issues =
     (let asyncFunctions = match_async code
      in if asyncFunctions \<noteq> None \<and> \<not> includes_str code (lit ''try'') \<and>
            \<not> includes_str code (lit ''catch'')
         then issues @ [error_handling_issue] else issues)"

definition default_export_issue :: issue where
  "default_export_issue =
     mk_issue (lit ''ERROR'') (lit ''Missing default export'')
       (lit ''Workers require a default export with a fetch handler: export default { async fetch(request, env, ctx) {...} }'')"

definition check_default_export :: "js_string \<Rightarrow> issue list \<Rightarrow> issue list" where
  "check_default_export code issues =
     (if \<not> includes_str code (lit ''export default'')
      then issues @ [default_export_issue] else issues)"

definition fetch_handler_issue :: issue where
  "fetch_handler_issue =
     mk_issue (lit ''ERROR'') (lit ''No fetch handler found'')
       (lit ''Workers need a fetch() method to handle HTTP requests.'')"

definition check_fetch_handler :: "js_string \<Rightarrow> issue list \<Rightarrow> issue list" where
  "check_fetch_handler code issues =
     (if \<not> includes_str code (lit ''fetch('') \<and> \<not> includes_str code (lit ''fetch ('')
      then issues @ [fetch_handler_issue] else issues)"

definition env_parameter_issue :: issue where
  "env_parameter_issue =
     mk_issue (lit ''INFO'') (lit ''Missing env parameter'')
       (lit ''Add env parameter to access bindings (KV, R2, D1, etc.): fetch(request, env, ctx)'')"

definition check_env_parameter :: "js_string \<Rightarrow> issue list \<Rightarrow> issue list" where
  "check_env_parameter code issues =
     (if includes_str code (lit ''fetch(request)'') \<and>
         \<not> includes_str code (lit ''fetch(request, env'')
      then issues @ [env_parameter_issue] else issues)"

definition response_issue :: issue where
  "response_issue =
     mk_issue (lit ''INFO'') (lit ''Consider using Response objects'')
       (lit ''Return proper Response objects with status codes and headers for better HTTP handling.'')"

definition check_response :: "js_string \<Rightarrow> issue list \<Rightarrow> issue list" where
  "check_response code issues =
     (if includes_str code (lit ''return '') \<and> \<not> includes_str code (lit ''Response'')
      then issues @ [response_issue] else issues)"

definition waitUntil_issue :: issue where
  "waitUntil_issue =
     mk_issue (lit ''INFO'') (lit ''Consider using ctx.waitUntil()'')
       (lit ''For background tasks that can complete after responding, use ctx.waitUntil() to keep the Worker alive.'')"

definition check_waitUntil :: "js_string \<Rightarrow> issue list \<Rightarrow> issue list" where
  "check_waitUntil code issues =
     (if (includes_str code (lit ''await'') \<or> includes_str code (lit ''fetch('')) \<and>
         \<not> includes_str code (lit ''waitUntil'')
      then issues @ [waitUntil_issue] else issues)"

text \<open>The first half of \<open>execute\<close> (lines 124 to 233): \<open>issues\<close> starts empty and goes
  through the ten rules in this order.\<close>

definition analyze :: "js_string \<Rightarrow> issue list" where
  "analyze code =
     (let issues = [];
          issues = check_node_apis code issues;
          issues = check_blocking_ops code issues;
          issues = check_timers code issues;
          issues = check_global_state code issues;
          issues = check_error_handling code issues;
          issues = check_default_export code issues;
          issues = check_fetch_handler code issues;
          issues = check_env_parameter code issues;
          issues = check_response code issues;
          issues = check_waitUntil code issues
      in issues)"

subsection \<open>The report\<close>

text \<open>
  The non-ASCII characters of the literals are given by their code units, as the
  source file has them: the all-clear message starts with U+00E2 U+0153 U+2026 and its
  second paragraph ends with U+00F0 U+0178 U+017D U+2030; the four section labels start
  with U+00F0 U+0178 U+201D U+00B4, with U+00F0 U+0178 U+0178 U+00A0, with
  U+00F0 U+0178 U+0178 U+00A1 and with U+00E2 U+201E U+00B9 U+00EF U+00B8.
\<close>

definition all_clear :: js_string where
  "all_clear =
     [226, 339, 8230] @ lit '' Excellent! No major issues detected.\<newline>\<newline>'' @
     lit ''  This code appears to be Workers-compatible and follows edge computing best practices. Great job! '' @
     [240, 376, 381, 8240] @ lit ''\<newline>\<newline>'' @
     lit ''  Some optional improvements you might consider:\<newline>'' @
     lit ''  - Add comprehensive error handling\<newline>'' @
     lit ''  - Implement caching strategies\<newline>'' @
     lit ''  - Add request validation\<newline>'' @
     lit ''  - Consider rate limiting''"

definition critical_label :: js_string where
  "critical_label = [240, 376, 8221, 180] @ lit '' CRITICAL ISSUES (''"

definition errors_label :: js_string where
  "errors_label = [240, 376, 376, 160] @ lit '' ERRORS (''"

definition warnings_label :: js_string where
  "warnings_label = [240, 376, 376, 161] @ lit '' WARNINGS (''"

definition info_label :: js_string where
  "info_label = [226, 8222, 185, 239, 184] @ lit '' SUGGESTIONS (''"

text \<open>The template literal of each \<open>forEach((issue, i) => ...)\<close>: the numbered
  entry that is appended to \<open>result\<close>, \<open>i\<close> being the index in the filtered array.\<close>

definition entry :: "nat \<Rightarrow> issue \<Rightarrow> js_string" where
  "entry i issue =
     lit ''\<newline>'' @ num_str (i + 1) @ lit ''. '' @ title issue @
     lit ''\<newline>   '' @ description issue @ lit ''\<newline>''"

text \<open>The second half of \<open>execute\<close> (lines 235 to 286).\<close>

definition format_issues :: "issue list \<Rightarrow> js_string" where
  "format_issues issues =
     (if length issues = 0 then all_clear
      else
        (let critical = filter (\<lambda>i. severity i = lit ''CRITICAL'') issues;
             errors = filter (\<lambda>i. severity i = lit ''ERROR'') issues;
             warnings = filter (\<lambda>i. severity i = lit ''WARNING'') issues;
             info = filter (\<lambda>i. severity i = lit ''INFO'') issues;
             result = lit ''Found '' @ num_str (length issues) @
                      lit '' issue(s) in your code:\<newline>\<newline>'';
             result =
               (if 0 < length critical then
                  foldl (\<lambda>result (i, issue). result @ entry i issue)
                    (result @ critical_label @ num_str (length critical) @ lit ''):\<newline>'')
                    (enumerate 0 critical) @ lit ''\<newline>''
                else result);
             result =
               (if 0 < length errors then
                  foldl (\<lambda>result (i, issue). result @ entry i issue)
                    (result @ errors_label @ num_str (length errors) @ lit ''):\<newline>'')
                    (enumerate 0 errors) @ lit ''\<newline>''
                else result);
             result =
               (if 0 < length warnings then
                  foldl (\<lambda>result (i, issue). result @ entry i issue)
                    (result @ warnings_label @ num_str (length warnings) @ lit ''):\<newline>'')
                    (enumerate 0 warnings) @ lit ''\<newline>''
                else result);
             result =
               (if 0 < length info then
                  foldl (\<lambda>result (i, issue). result @ entry i issue)
                    (result @ info_label @ num_str (length info) @ lit ''):\<newline>'')
                    (enumerate 0 info)
                else result)
         in result))"

text \<open>
  \<open>execute\<close> as a whole: the line written by \<open>console.log\<close> and the returned string.
  \<open>filename\<close> is optional; the empty string is falsy, as \<open>undefined\<close> is.
\<close>

definition log_line :: "js_string option \<Rightarrow> js_string" where
  "log_line filename =
     lit ''Analyzing code'' @
     (case filename of
        None \<Rightarrow> []
      | Some f \<Rightarrow> if f = [] then [] else lit '' from '' @ f) @
     lit ''...''"

definition execute :: "js_string \<Rightarrow> js_string option \<Rightarrow> js_string \<times> js_string" where
  "execute code filename = (log_line filename, format_issues (analyze code))"

subsection \<open>The call as a sequence of steps on a state\<close>

text \<open>
  The same function with its effects explicit. The state holds what a call of
  \<open>execute\<close> reads and writes: the two parameters \<open>code\<close> and \<open>filename\<close>, the console,
  the array \<open>issues\<close> and the returned string. A call may start in any state: the console
  holds what was written before, and \<open>st_issues\<close> and \<open>st_result\<close> hold whatever an
  earlier call left. The steps are the statements of the source in their order:
  \<open>console.log\<close> (line 122), \<open>const issues = []\<close> (line 124), the ten rules (lines 127
  to 233), each of which reads \<open>code\<close> and pushes onto \<open>issues\<close>, and the rendering (lines
  235 to 286). The body of \<open>execute\<close> has no \<open>await\<close>, so a call runs all its steps before
  another call starts.
\<close>

record exec_state =
  st_code :: js_string
  st_filename :: "js_string option"
  st_console :: "js_string list"
  st_issues :: "issue list"
  st_result :: js_string

definition step_log :: "exec_state \<Rightarrow> exec_state" where
  "step_log st = st\<lparr>st_console := st_console st @ [log_line (st_filename st)]\<rparr>"

definition step_init :: "exec_state \<Rightarrow> exec_state" where
  "step_init st = st\<lparr>st_issues := []\<rparr>"

definition step_rule ::
  "(js_string \<Rightarrow> issue list \<Rightarrow> issue list) \<Rightarrow> exec_state \<Rightarrow> exec_state" where
  "step_rule rule st = st\<lparr>st_issues := rule (st_code st) (st_issues st)\<rparr>"

definition step_format :: "exec_state \<Rightarrow> exec_state" where
  "step_format st = st\<lparr>st_result := format_issues (st_issues st)\<rparr>"

definition execute_steps :: "(exec_state \<Rightarrow> exec_state) list" where
  "execute_steps =
     [step_log, step_init,
      step_rule check_node_apis, step_rule check_blocking_ops, step_rule check_timers,
      step_rule check_global_state, step_rule check_error_handling,
      step_rule check_default_export, step_rule check_fetch_handler,
      step_rule check_env_parameter, step_rule check_response, step_rule check_waitUntil,
      step_format]"


subsection \<open>Reading the report\<close>

text \<open>
  What the specification says of the report, in its own words: a count header, then
  one section per severity present, in the fixed order CRITICAL, ERROR, WARNING, INFO,
  each with its count and its entries numbered from 1. These definitions are not in the
  source; the theorems on the report compare \<open>format_issues\<close> with them.
  \<open>section_label\<close> and \<open>section_end\<close> give the label the source prints for a severity
  and what it prints after the section's entries (nothing after the last section).
  \<open>digits_value\<close> reads a decimal numeral back.
\<close>

definition severity_order :: "js_string list" where
  "severity_order = [lit ''CRITICAL'', lit ''ERROR'', lit ''WARNING'', lit ''INFO'']"

definition section_label :: "js_string \<Rightarrow> js_string" where
  "section_label s =
     (if s = lit ''CRITICAL'' then critical_label
      else if s = lit ''ERROR'' then errors_label
      else if s = lit ''WARNING'' then warnings_label
      else info_label)"

definition section_end :: "js_string \<Rightarrow> js_string" where
  "section_end s = (if s = lit ''INFO'' then [] else lit ''\<newline>'')"

definition render_section :: "js_string \<Rightarrow> issue list \<Rightarrow> js_string" where
  "render_section s issues =
     (let group = filter (\<lambda>i. severity i = s) issues
      in section_label s @ num_str (length group) @ lit ''):\<newline>'' @
         concat (map (\<lambda>k. entry k (group ! k)) [0..<length group]) @ section_end s)"

definition section_if :: "js_string \<Rightarrow> issue list \<Rightarrow> js_string" where
  "section_if s issues =
     (if filter (\<lambda>i. severity i = s) issues = [] then [] else render_section s issues)"

definition report_header :: "nat \<Rightarrow> js_string" where
  "report_header n = lit ''Found '' @ num_str n @ lit '' issue(s) in your code:\<newline>\<newline>''"

definition digits_value :: "js_string \<Rightarrow> nat" where
  "digits_value ds = foldl (\<lambda>a d. 10 * a + (d - 48)) 0 ds"

subsection \<open>Example inputs\<close>

text \<open>The text of the specification's first end-to-end scenario.\<close>

definition scenario1 :: js_string where
  "scenario1 = lit ''import fs from 'fs';\<newline>export default { async fetch(request) { return new Response(fs.readFileSync('x')); } }''"

text \<open>A handler with the three parameters that forwards the request with a
  one-argument call of \<open>fetch\<close>.\<close>

definition proxy_worker :: js_string where
  "proxy_worker = lit ''export default { async fetch(request, env, ctx) { return fetch(request); } }''"

text \<open>A handler on which no rule fires.\<close>

definition clean_worker :: js_string where
  "clean_worker = lit ''export default {\<newline>  async fetch(request, env, ctx) {\<newline>    try {\<newline>      ctx.waitUntil(env.KV.put('k', 'v'));\<newline>      return new Response('ok');\<newline>    } catch (e) {\<newline>      return new Response('error', { status: 500 });\<newline>    }\<newline>  }\<newline>};''"

text \<open>The four ways of naming the module \<open>fs\<close> that the first rule looks for.\<close>

definition import_single :: js_string where
  "import_single = lit ''import fs from 'fs';''"

definition import_double :: js_string where
  "import_double = lit ''import fs from \"fs\";''"

definition require_single_text :: js_string where
  "require_single_text = lit ''const fs = require('fs');''"

definition require_double_text :: js_string where
  "require_double_text = lit ''const fs = require(\"fs\");''"

text \<open>Two ways of loading \<open>fs\<close> that are none of the four.\<close>

definition side_effect_import :: js_string where
  "side_effect_import = lit ''import 'fs';''"

definition dynamic_import :: js_string where
  "dynamic_import = lit ''const fs = await import('fs');''"

text \<open>An async function with no try/catch block, whose name contains the letters
  \<open>try\<close>; and the same function under a name that does not.\<close>

definition country_worker :: js_string where
  "country_worker = lit ''async function country(request) { return await lookup(request); }''"

definition county_worker :: js_string where
  "county_worker = lit ''async function county(request) { return await lookup(request); }''"

text \<open>The issues of the specification's fifth scenario: two CRITICAL and one INFO.\<close>

definition scenario5 :: "issue list" where
  "scenario5 =
     [node_api_issue (lit ''fs''),
      blocking_issue (lit ''readFileSync'', lit ''Use KV.get() or R2 fetch with await''),
      env_parameter_issue]"




section \<open>Lemmas\<close>

subsection \<open>Strings\<close>

text \<open>The two searches find exactly the occurrences: \<open>startsWith\<close> a prefix,
  \<open>includes_str\<close> an occurrence at any position.\<close>

lemma startsWith_iff: "startsWith s p \<longleftrightarrow> (\<exists>rest. s = p @ rest)"
  by (induction s p rule: startsWith.induct) auto

lemma includes_str_iff: "includes_str s p \<longleftrightarrow> (\<exists>pre post. s = pre @ p @ post)"
proof (induction s)
  case Nil
  then show ?case by simp
next
  case (Cons c cs)
  show ?case
  proof
    assume "includes_str (c # cs) p"
    then consider "startsWith (c # cs) p" | "includes_str cs p" by auto
    then show "\<exists>pre post. c # cs = pre @ p @ post"
    proof cases
      case 1
      then obtain rest where "c # cs = p @ rest" by (auto simp: startsWith_iff)
      then have "c # cs = [] @ p @ rest" by simp
      then show ?thesis by blast
    next
      case 2
      with Cons.IH obtain pre post where "cs = pre @ p @ post" by blast
      then have "c # cs = (c # pre) @ p @ post" by simp
      then show ?thesis by blast
    qed
  next
    assume "\<exists>pre post. c # cs = pre @ p @ post"
    then obtain pre post where e: "c # cs = pre @ p @ post" by blast
    show "includes_str (c # cs) p"
    proof (cases pre)
      case Nil
      with e have "startsWith (c # cs) p" by (auto simp: startsWith_iff)
      then show ?thesis by simp
    next
      case (Cons a pre')
      with e have "cs = pre' @ p @ post" by simp
      with Cons.IH have "includes_str cs p" by blast
      then show ?thesis by simp
    qed
  qed
qed

subsection \<open>The regular expressions\<close>

text \<open>
  The matchers take the longest runs; these lemmas say that they accept exactly the
  texts the regular expressions accept. \<open>decl_rest\<close> holds of the strings that start
  with one or more \<open>\s\<close>, then one or more \<open>\w\<close>, then any number of \<open>\s\<close>, then
  \<open>=\<close>; \<open>match_global_state\<close> holds when such a declaration follows \<open>let\<close>, \<open>var\<close>
  or \<open>const\<close> at the start of the text or after a line terminator;
  \<open>match_async\<close> finds a match when \<open>async\<close>, one or more \<open>\s\<close> and one or more
  \<open>\w\<close> occur in the text.
\<close>

lemma is_word_not_space: "is_word c \<Longrightarrow> \<not> is_space c"
  by (auto simp: is_word_def is_space_def)

lemma equals_sign_class: "\<not> is_space 61" "\<not> is_word 61"
  by (simp_all add: is_space_def is_word_def)

lemma dropWhile_run:
  assumes "\<forall>c \<in> set run. P c" and "rest = [] \<or> \<not> P (hd rest)"
  shows "dropWhile P (run @ rest) = rest"
  using assms by (cases rest) (simp_all add: dropWhile_append2)

lemma decl_rest_iff:
  "decl_rest s \<longleftrightarrow>
     (\<exists>ws w ws' rest. s = ws @ w @ ws' @ 61 # rest \<and>
        ws \<noteq> [] \<and> (\<forall>c \<in> set ws. is_space c) \<and>
        w \<noteq> [] \<and> (\<forall>c \<in> set w. is_word c) \<and>
        (\<forall>c \<in> set ws'. is_space c))"
proof
  assume d: "decl_rest s"
  define r1 where "r1 = dropWhile is_space s"
  define r2 where "r2 = dropWhile is_word r1"
  define r3 where "r3 = dropWhile is_space r2"
  from d have l1: "length r1 < length s" and l2: "length r2 < length r1"
    and st: "startsWith r3 [61]"
    by (simp_all add: decl_rest_def Let_def r1_def r2_def r3_def)
  from st obtain rest where r3: "r3 = 61 # rest"
    by (auto simp: startsWith_iff)
  have s: "s = takeWhile is_space s @ takeWhile is_word r1 @ takeWhile is_space r2 @ 61 # rest"
    unfolding r3[symmetric] r3_def r2_def r1_def by simp
  have "takeWhile is_space s \<noteq> []"
    using l1 unfolding r1_def by (metis takeWhile_dropWhile_id append_Nil less_irrefl)
  moreover have "takeWhile is_word r1 \<noteq> []"
    using l2 unfolding r2_def by (metis takeWhile_dropWhile_id append_Nil less_irrefl)
  moreover have "\<forall>c \<in> set (takeWhile is_space s). is_space c"
    "\<forall>c \<in> set (takeWhile is_word r1). is_word c"
    "\<forall>c \<in> set (takeWhile is_space r2). is_space c"
    by (auto dest: set_takeWhileD)
  ultimately show "\<exists>ws w ws' rest. s = ws @ w @ ws' @ 61 # rest \<and>
        ws \<noteq> [] \<and> (\<forall>c \<in> set ws. is_space c) \<and>
        w \<noteq> [] \<and> (\<forall>c \<in> set w. is_word c) \<and>
        (\<forall>c \<in> set ws'. is_space c)"
    using s by blast
next
  assume "\<exists>ws w ws' rest. s = ws @ w @ ws' @ 61 # rest \<and>
        ws \<noteq> [] \<and> (\<forall>c \<in> set ws. is_space c) \<and>
        w \<noteq> [] \<and> (\<forall>c \<in> set w. is_word c) \<and>
        (\<forall>c \<in> set ws'. is_space c)"
  then obtain ws w ws' rest where s: "s = ws @ w @ ws' @ 61 # rest"
    and ws: "ws \<noteq> []" "\<forall>c \<in> set ws. is_space c"
    and w: "w \<noteq> []" "\<forall>c \<in> set w. is_word c"
    and ws': "\<forall>c \<in> set ws'. is_space c"
    by blast
  from w have hw: "\<not> is_space (hd (w @ ws' @ 61 # rest))"
    by (cases w) (simp_all add: is_word_not_space)
  have r1: "dropWhile is_space s = w @ ws' @ 61 # rest"
    unfolding s using ws(2) hw by (intro dropWhile_run) simp_all
  have hs: "\<not> is_word (hd (ws' @ 61 # rest))"
    using ws' by (cases ws') (auto simp: equals_sign_class dest: is_word_not_space)
  have r2: "dropWhile is_word (w @ ws' @ 61 # rest) = ws' @ 61 # rest"
    using w(2) hs by (intro dropWhile_run) simp_all
  have r3: "dropWhile is_space (ws' @ 61 # rest) = 61 # rest"
    using ws' by (intro dropWhile_run) (simp_all add: equals_sign_class)
  show "decl_rest s"
    unfolding decl_rest_def Let_def r1 r2 r3
    using ws(1) w(1) by (simp add: s)
qed


lemma starts_drop:
  "(startsWith s kw \<and> P (drop (length kw) s)) \<longleftrightarrow> (\<exists>tail. s = kw @ tail \<and> P tail)"
  by (auto simp: startsWith_iff)

lemma decl_at_iff:
  "decl_at s \<longleftrightarrow>
     (\<exists>kw \<in> {lit ''let'', lit ''var'', lit ''const''}. \<exists>tail. s = kw @ tail \<and> decl_rest tail)"
  by (simp add: decl_at_def starts_drop)

lemma global_state_search_iff:
  "global_state_search bol s \<longleftrightarrow>
     (bol \<and> decl_at s) \<or>
     (\<exists>pre c rest. s = pre @ c # rest \<and> is_line_terminator c \<and> decl_at rest)"
proof (induction s arbitrary: bol)
  case Nil
  then show ?case by simp
next
  case (Cons a s)
  have "(\<exists>pre c rest. a # s = pre @ c # rest \<and> is_line_terminator c \<and> decl_at rest) \<longleftrightarrow>
      (is_line_terminator a \<and> decl_at s) \<or>
      (\<exists>pre c rest. s = pre @ c # rest \<and> is_line_terminator c \<and> decl_at rest)"
    (is "?L \<longleftrightarrow> ?A \<or> ?R")
  proof
    assume ?L
    then obtain pre c rest where e: "a # s = pre @ c # rest"
      and c: "is_line_terminator c" "decl_at rest" by blast
    show "?A \<or> ?R"
    proof (cases pre)
      case Nil
      with e c show ?thesis by simp
    next
      case (Cons b pre')
      with e have "s = pre' @ c # rest" by simp
      with c show ?thesis by blast
    qed
  next
    assume "?A \<or> ?R"
    then show ?L
    proof
      assume ?A
      then have "a # s = [] @ a # s \<and> is_line_terminator a \<and> decl_at s" by simp
      then show ?L by blast
    next
      assume ?R
      then obtain pre c rest where "s = pre @ c # rest" "is_line_terminator c" "decl_at rest"
        by blast
      then have "a # s = (a # pre) @ c # rest \<and> is_line_terminator c \<and> decl_at rest" by simp
      then show ?L by blast
    qed
  qed
  then show ?case by (simp add: Cons.IH)
qed

lemma match_global_state_iff:
  "match_global_state code \<longleftrightarrow>
     decl_at code \<or>
     (\<exists>pre c rest. code = pre @ c # rest \<and> is_line_terminator c \<and> decl_at rest)"
  by (simp add: match_global_state_def global_state_search_iff)

lemma async_at_iff:
  "async_at s \<noteq> None \<longleftrightarrow>
     (\<exists>ws w rest. s = lit ''async'' @ ws @ w @ rest \<and>
        ws \<noteq> [] \<and> (\<forall>c \<in> set ws. is_space c) \<and>
        w \<noteq> [] \<and> (\<forall>c \<in> set w. is_word c))"
proof
  assume a: "async_at s \<noteq> None"
  then have st: "startsWith s (lit ''async'')"
    by (auto simp: async_at_def split: if_splits)
  then obtain r0 where s: "s = lit ''async'' @ r0" by (auto simp: startsWith_iff)
  then have d: "drop 5 s = r0" by (simp add: lit_def)
  from a st d have ne: "takeWhile is_space r0 \<noteq> []"
    "takeWhile is_word (dropWhile is_space r0) \<noteq> []"
    by (auto simp: async_at_def Let_def split: if_splits)
  have "r0 = takeWhile is_space r0 @ takeWhile is_word (dropWhile is_space r0) @
      dropWhile is_word (dropWhile is_space r0)" by simp
  with s have "s = lit ''async'' @ takeWhile is_space r0 @
      takeWhile is_word (dropWhile is_space r0) @ dropWhile is_word (dropWhile is_space r0)"
    by simp
  moreover have "\<forall>c \<in> set (takeWhile is_space r0). is_space c"
    "\<forall>c \<in> set (takeWhile is_word (dropWhile is_space r0)). is_word c"
    by (auto dest: set_takeWhileD)
  ultimately show "\<exists>ws w rest. s = lit ''async'' @ ws @ w @ rest \<and>
        ws \<noteq> [] \<and> (\<forall>c \<in> set ws. is_space c) \<and>
        w \<noteq> [] \<and> (\<forall>c \<in> set w. is_word c)"
    using ne by blast
next
  assume "\<exists>ws w rest. s = lit ''async'' @ ws @ w @ rest \<and>
        ws \<noteq> [] \<and> (\<forall>c \<in> set ws. is_space c) \<and>
        w \<noteq> [] \<and> (\<forall>c \<in> set w. is_word c)"
  then obtain ws w rest where s: "s = lit ''async'' @ ws @ w @ rest"
    and ws: "ws \<noteq> []" "\<forall>c \<in> set ws. is_space c"
    and w: "w \<noteq> []" "\<forall>c \<in> set w. is_word c"
    by blast
  have st: "startsWith s (lit ''async'')" unfolding s startsWith_iff by blast
  have d: "drop 5 s = ws @ w @ rest" by (simp add: s lit_def)
  from w have hw: "\<not> is_space (hd (w @ rest))"
    by (cases w) (simp_all add: is_word_not_space)
  have t1: "takeWhile is_space (ws @ w @ rest) \<noteq> []"
    using ws by (cases ws) simp_all
  have "dropWhile is_space (ws @ w @ rest) = w @ rest"
    using ws(2) hw w(1) by (intro dropWhile_run) simp_all
  then have t2: "takeWhile is_word (dropWhile is_space (ws @ w @ rest)) \<noteq> []"
    using w by (cases w) simp_all
  show "async_at s \<noteq> None"
    using st t1 t2 by (simp add: async_at_def d Let_def)
qed

lemma async_at_Nil: "async_at [] = None"
  by (simp add: async_at_def lit_def)

lemma async_scan_found:
  "async_scan 0 s \<noteq> [] \<Longrightarrow> \<exists>pre t. s = pre @ t \<and> async_at t \<noteq> None"
proof (induction s)
  case Nil
  then show ?case by simp
next
  case (Cons a s)
  show ?case
  proof (cases "async_at (a # s)")
    case None
    with Cons.prems have "async_scan 0 s \<noteq> []" by simp
    then obtain pre t where "s = pre @ t" and t: "async_at t \<noteq> None"
      using Cons.IH by blast
    then have "a # s = (a # pre) @ t" by simp
    with t show ?thesis by blast
  next
    case (Some m)
    then have "a # s = [] @ (a # s)" and "async_at (a # s) \<noteq> None" by simp_all
    then show ?thesis by blast
  qed
qed

lemma async_scan_finds:
  "async_at t \<noteq> None \<Longrightarrow> async_scan 0 (pre @ t) \<noteq> []"
proof (induction pre)
  case Nil
  then obtain a s where t: "t = a # s" by (cases t) (simp_all add: async_at_Nil)
  with Nil obtain m where "async_at (a # s) = Some m" by auto
  with t show ?case by simp
next
  case (Cons b pre)
  then have ih: "async_scan 0 (pre @ t) \<noteq> []" by simp
  show ?case
  proof (cases "async_at (b # pre @ t)")
    case None
    with ih show ?thesis by simp
  next
    case (Some m)
    then show ?thesis by simp
  qed
qed


lemma match_async_iff:
  "match_async code \<noteq> None \<longleftrightarrow>
     (\<exists>pre ws w rest. code = pre @ lit ''async'' @ ws @ w @ rest \<and>
        ws \<noteq> [] \<and> (\<forall>c \<in> set ws. is_space c) \<and>
        w \<noteq> [] \<and> (\<forall>c \<in> set w. is_word c))"
proof
  assume "match_async code \<noteq> None"
  then have "async_scan 0 code \<noteq> []"
    by (simp add: match_async_def split: list.splits)
  then obtain pre t where c: "code = pre @ t" and "async_at t \<noteq> None"
    using async_scan_found by blast
  then obtain ws w rest where "t = lit ''async'' @ ws @ w @ rest"
    "ws \<noteq> []" "\<forall>c \<in> set ws. is_space c" "w \<noteq> []" "\<forall>c \<in> set w. is_word c"
    unfolding async_at_iff by blast
  with c show "\<exists>pre ws w rest. code = pre @ lit ''async'' @ ws @ w @ rest \<and>
      ws \<noteq> [] \<and> (\<forall>c \<in> set ws. is_space c) \<and>
      w \<noteq> [] \<and> (\<forall>c \<in> set w. is_word c)"
    by blast
next
  assume "\<exists>pre ws w rest. code = pre @ lit ''async'' @ ws @ w @ rest \<and>
      ws \<noteq> [] \<and> (\<forall>c \<in> set ws. is_space c) \<and>
      w \<noteq> [] \<and> (\<forall>c \<in> set w. is_word c)"
  then obtain pre ws w rest where c: "code = pre @ lit ''async'' @ ws @ w @ rest"
    and r: "ws \<noteq> []" "\<forall>c \<in> set ws. is_space c" "w \<noteq> []" "\<forall>c \<in> set w. is_word c"
    by blast
  from r have "async_at (lit ''async'' @ ws @ w @ rest) \<noteq> None"
    unfolding async_at_iff by blast
  then have "async_scan 0 code \<noteq> []"
    unfolding c by (rule async_scan_finds)
  then show "match_async code \<noteq> None"
    by (simp add: match_async_def split: list.splits)
qed

subsection \<open>Numerals\<close>

lemma num_str_digit: "n < 10 \<Longrightarrow> num_str n = [48 + n]"
  by (simp add: num_str.simps)

lemma digits_value_num_str: "digits_value (num_str n) = n"
proof (induction n rule: num_str.induct)
  case (1 n)
  show ?case
  proof (cases "n < 10")
    case True
    then show ?thesis by (simp add: num_str.simps[of n] digits_value_def)
  next
    case False
    with 1 have "digits_value (num_str (n div 10)) = n div 10" by simp
    with False show ?thesis
      by (simp add: num_str.simps[of n] digits_value_def)
  qed
qed

lemma sev_lits:
  "lit ''ERROR'' \<noteq> lit ''CRITICAL''" "lit ''WARNING'' \<noteq> lit ''CRITICAL''"
  "lit ''WARNING'' \<noteq> lit ''ERROR''" "lit ''INFO'' \<noteq> lit ''CRITICAL''"
  "lit ''INFO'' \<noteq> lit ''ERROR''" "lit ''INFO'' \<noteq> lit ''WARNING''"
  by (simp_all add: lit_def)

subsection \<open>The rules as one list\<close>

text \<open>Each \<open>forEach\<close> with a conditional \<open>push\<close> appends the issues of the elements
  that satisfy the condition, in the order of the array.\<close>

lemma foldl_push:
  "foldl (\<lambda>acc x. if P x then acc @ [f x] else acc) init xs = init @ map f (filter P xs)"
  by (induction xs arbitrary: init) simp_all

lemma check_node_apis_eq:
  "check_node_apis code issues =
     issues @ map node_api_issue (filter (references_module code) nodeAPIs)"
  unfolding check_node_apis_def by (rule foldl_push)

lemma check_blocking_ops_eq:
  "check_blocking_ops code issues =
     issues @ map blocking_issue (filter (\<lambda>op. includes_str code (fst op)) blockingOps)"
  unfolding check_blocking_ops_def by (rule foldl_push)

lemma check_timers_eq:
  "check_timers code issues = issues @
     (if includes_str code (lit ''setTimeout'') \<or> includes_str code (lit ''setInterval'')
      then [timer_issue] else [])"
  by (simp add: check_timers_def)

lemma check_global_state_eq:
  "check_global_state code issues = issues @
     (if match_global_state code \<and> includes_str code (lit ''export default'')
      then [global_state_issue] else [])"
  by (simp add: check_global_state_def)

lemma check_error_handling_eq:
  "check_error_handling code issues = issues @
     (if match_async code \<noteq> None \<and> \<not> includes_str code (lit ''try'') \<and>
         \<not> includes_str code (lit ''catch'')
      then [error_handling_issue] else [])"
  by (simp add: check_error_handling_def)

lemma check_default_export_eq:
  "check_default_export code issues = issues @
     (if \<not> includes_str code (lit ''export default'') then [default_export_issue] else [])"
  by (simp add: check_default_export_def)

lemma check_fetch_handler_eq:
  "check_fetch_handler code issues = issues @
     (if \<not> includes_str code (lit ''fetch('') \<and> \<not> includes_str code (lit ''fetch ('')
      then [fetch_handler_issue] else [])"
  by (simp add: check_fetch_handler_def)

lemma check_env_parameter_eq:
  "check_env_parameter code issues = issues @
     (if includes_str code (lit ''fetch(request)'') \<and>
         \<not> includes_str code (lit ''fetch(request, env'')
      then [env_parameter_issue] else [])"
  by (simp add: check_env_parameter_def)

lemma check_response_eq:
  "check_response code issues = issues @
     (if includes_str code (lit ''return '') \<and> \<not> includes_str code (lit ''Response'')
      then [response_issue] else [])"
  by (simp add: check_response_def)

lemma check_waitUntil_eq:
  "check_waitUntil code issues = issues @
     (if (includes_str code (lit ''await'') \<or> includes_str code (lit ''fetch('')) \<and>
         \<not> includes_str code (lit ''waitUntil'')
      then [waitUntil_issue] else [])"
  by (simp add: check_waitUntil_def)

lemma analyze_eq:
  "analyze code =
     map node_api_issue (filter (references_module code) nodeAPIs) @
     map blocking_issue (filter (\<lambda>op. includes_str code (fst op)) blockingOps) @
     (if includes_str code (lit ''setTimeout'') \<or> includes_str code (lit ''setInterval'')
      then [timer_issue] else []) @
     (if match_global_state code \<and> includes_str code (lit ''export default'')
      then [global_state_issue] else []) @
     (if match_async code \<noteq> None \<and> \<not> includes_str code (lit ''try'') \<and>
         \<not> includes_str code (lit ''catch'')
      then [error_handling_issue] else []) @
     (if \<not> includes_str code (lit ''export default'') then [default_export_issue] else []) @
     (if \<not> includes_str code (lit ''fetch('') \<and> \<not> includes_str code (lit ''fetch ('')
      then [fetch_handler_issue] else []) @
     (if includes_str code (lit ''fetch(request)'') \<and>
         \<not> includes_str code (lit ''fetch(request, env'')
      then [env_parameter_issue] else []) @
     (if includes_str code (lit ''return '') \<and> \<not> includes_str code (lit ''Response'')
      then [response_issue] else []) @
     (if (includes_str code (lit ''await'') \<or> includes_str code (lit ''fetch('')) \<and>
         \<not> includes_str code (lit ''waitUntil'')
      then [waitUntil_issue] else [])"
  unfolding analyze_def Let_def check_node_apis_eq check_blocking_ops_eq
    check_timers_eq check_global_state_eq check_error_handling_eq
    check_default_export_eq check_fetch_handler_eq check_env_parameter_eq
    check_response_eq check_waitUntil_eq
  by (simp only: append_Nil append_assoc)

lemma mem_if_single: "x \<in> set (if c then [y] else []) \<longleftrightarrow> c \<and> x = y"
  by auto

lemma in_analyze_iff:
  "x \<in> set (analyze code) \<longleftrightarrow>
     (\<exists>api \<in> set nodeAPIs. references_module code api \<and> x = node_api_issue api) \<or>
     (\<exists>op \<in> set blockingOps. includes_str code (fst op) \<and> x = blocking_issue op) \<or>
     ((includes_str code (lit ''setTimeout'') \<or> includes_str code (lit ''setInterval'')) \<and>
        x = timer_issue) \<or>
     (match_global_state code \<and> includes_str code (lit ''export default'') \<and>
        x = global_state_issue) \<or>
     (match_async code \<noteq> None \<and> \<not> includes_str code (lit ''try'') \<and>
        \<not> includes_str code (lit ''catch'') \<and> x = error_handling_issue) \<or>
     (\<not> includes_str code (lit ''export default'') \<and> x = default_export_issue) \<or>
     (\<not> includes_str code (lit ''fetch('') \<and> \<not> includes_str code (lit ''fetch ('') \<and>
        x = fetch_handler_issue) \<or>
     (includes_str code (lit ''fetch(request)'') \<and>
        \<not> includes_str code (lit ''fetch(request, env'') \<and> x = env_parameter_issue) \<or>
     (includes_str code (lit ''return '') \<and> \<not> includes_str code (lit ''Response'') \<and>
        x = response_issue) \<or>
     ((includes_str code (lit ''await'') \<or> includes_str code (lit ''fetch('')) \<and>
        \<not> includes_str code (lit ''waitUntil'') \<and> x = waitUntil_issue)"
  unfolding analyze_eq set_append Un_iff mem_if_single
  by (simp only: set_map set_filter image_iff Bex_def mem_Collect_eq conj_assoc; blast)

subsection \<open>When each issue is among the issues\<close>

lemmas fixed_issue_defs =
  timer_issue_def global_state_issue_def error_handling_issue_def default_export_issue_def
  fetch_handler_issue_def env_parameter_issue_def response_issue_def waitUntil_issue_def

lemmas module_defs =
  references_module_def from_single_def from_double_def require_single_def require_double_def

lemma waitUntil_issue_in_analyze:
  "waitUntil_issue \<in> set (analyze code) \<longleftrightarrow>
     (includes_str code (lit ''await'') \<or> includes_str code (lit ''fetch('')) \<and>
     \<not> includes_str code (lit ''waitUntil'')"
  unfolding in_analyze_iff
  by (simp add: fixed_issue_defs node_api_issue_def blocking_issue_def mk_issue_def lit_def)

lemma env_parameter_issue_in_analyze:
  "env_parameter_issue \<in> set (analyze code) \<longleftrightarrow>
     includes_str code (lit ''fetch(request)'') \<and>
     \<not> includes_str code (lit ''fetch(request, env'')"
  unfolding in_analyze_iff
  by (simp add: fixed_issue_defs node_api_issue_def blocking_issue_def mk_issue_def lit_def)

lemma error_handling_issue_in_analyze:
  "error_handling_issue \<in> set (analyze code) \<longleftrightarrow>
     match_async code \<noteq> None \<and> \<not> includes_str code (lit ''try'') \<and>
     \<not> includes_str code (lit ''catch'')"
  unfolding in_analyze_iff
  by (simp add: fixed_issue_defs node_api_issue_def blocking_issue_def mk_issue_def lit_def)

lemma node_api_issue_in_analyze:
  "node_api_issue m \<in> set (analyze code) \<longleftrightarrow> m \<in> set nodeAPIs \<and> references_module code m"
  unfolding in_analyze_iff
  by (auto simp add: fixed_issue_defs node_api_issue_def blocking_issue_def mk_issue_def lit_def)

lemma other_titles:
  "title (node_api_issue api) \<noteq> lit ''Missing error handling''"
  "title (blocking_issue op) \<noteq> lit ''Missing error handling''"
  "title timer_issue \<noteq> lit ''Missing error handling''"
  "title global_state_issue \<noteq> lit ''Missing error handling''"
  "title default_export_issue \<noteq> lit ''Missing error handling''"
  "title fetch_handler_issue \<noteq> lit ''Missing error handling''"
  "title env_parameter_issue \<noteq> lit ''Missing error handling''"
  "title response_issue \<noteq> lit ''Missing error handling''"
  "title waitUntil_issue \<noteq> lit ''Missing error handling''"
  by (simp_all add: fixed_issue_defs node_api_issue_def blocking_issue_def mk_issue_def lit_def)

lemma error_handling_title_unique:
  assumes "i \<in> set (analyze code)" and "title i = lit ''Missing error handling''"
  shows "i = error_handling_issue"
  using assms unfolding in_analyze_iff
  by (elim disjE bexE conjE) (simp_all add: other_titles)

lemma fs_in_nodeAPIs: "lit ''fs'' \<in> set nodeAPIs"
  by (simp add: nodeAPIs_def)

subsection \<open>The rules on the example inputs\<close>

lemma references_module_Nil: "\<not> references_module [] api"
  by (simp add: module_defs lit_def)

lemma match_global_state_Nil: "\<not> match_global_state []"
  by (simp add: match_global_state_def decl_at_def lit_def)

lemma match_async_Nil: "match_async [] = None"
  by (simp add: match_async_def)

lemma scenario1_includes:
  "includes_str scenario1 (lit ''fetch('')"
  "\<not> includes_str scenario1 (lit ''await'')"
  "\<not> includes_str scenario1 (lit ''waitUntil'')"
  "includes_str scenario1 (lit ''fetch(request)'')"
  "\<not> includes_str scenario1 (lit ''fetch(request, env'')"
  by (simp_all add: scenario1_def lit_def)

lemma scenario1_async: "match_async scenario1 = Some [lit ''async fetch'']"
  by (simp add: scenario1_def lit_def match_async_def async_at_def is_space_def is_word_def)

lemma scenario1_global: "\<not> match_global_state scenario1"
  by (simp add: scenario1_def lit_def match_global_state_def decl_at_def is_line_terminator_def)

lemma scenario1_refs: "filter (references_module scenario1) nodeAPIs = [lit ''fs'']"
  by (simp add: scenario1_def lit_def nodeAPIs_def module_defs)

lemma scenario1_blocking:
  "filter (\<lambda>op. includes_str scenario1 (fst op)) blockingOps =
     [(lit ''readFileSync'', lit ''Use KV.get() or R2 fetch with await'')]"
  by (simp add: scenario1_def lit_def blockingOps_def)

lemma scenario1_analyze:
  "analyze scenario1 =
     [node_api_issue (lit ''fs''),
      blocking_issue (lit ''readFileSync'', lit ''Use KV.get() or R2 fetch with await''),
      error_handling_issue, env_parameter_issue, waitUntil_issue]"
  unfolding analyze_eq scenario1_refs scenario1_blocking
  by (simp add: scenario1_async scenario1_global scenario1_includes)
    (simp add: scenario1_def lit_def)

lemma proxy_worker_includes:
  "includes_str proxy_worker (lit ''fetch(request)'')"
  "includes_str proxy_worker (lit ''fetch(request, env'')"
  by (simp_all add: proxy_worker_def lit_def)

lemma clean_worker_refs: "filter (references_module clean_worker) nodeAPIs = []"
  by (simp add: clean_worker_def lit_def nodeAPIs_def module_defs)

lemma clean_worker_blocking:
  "filter (\<lambda>op. includes_str clean_worker (fst op)) blockingOps = []"
  by (simp add: clean_worker_def lit_def blockingOps_def)

lemma clean_worker_includes:
  "\<not> includes_str clean_worker (lit ''setTimeout'')"
  "\<not> includes_str clean_worker (lit ''setInterval'')"
  "includes_str clean_worker (lit ''try'')"
  "includes_str clean_worker (lit ''export default'')"
  "includes_str clean_worker (lit ''fetch('')"
  "\<not> includes_str clean_worker (lit ''fetch(request)'')"
  "includes_str clean_worker (lit ''Response'')"
  "includes_str clean_worker (lit ''waitUntil'')"
  by (simp_all add: clean_worker_def lit_def)

lemma clean_worker_global: "\<not> match_global_state clean_worker"
  by (simp add: clean_worker_def lit_def match_global_state_def decl_at_def
      is_line_terminator_def)

lemma clean_worker_analyze: "analyze clean_worker = []"
  by (simp add: analyze_eq clean_worker_refs clean_worker_blocking clean_worker_includes
      clean_worker_global)

lemma all_clear_no_zero_header: "\<not> includes_str all_clear (lit ''Found 0 issue(s)'')"
  by (simp add: all_clear_def lit_def)

lemma all_clear_not_empty: "all_clear \<noteq> []"
  by (simp add: all_clear_def)

lemma four_forms_found:
  "includes_str import_single (from_single (lit ''fs''))"
  "includes_str import_double (from_double (lit ''fs''))"
  "includes_str require_single_text (require_single (lit ''fs''))"
  "includes_str require_double_text (require_double (lit ''fs''))"
  by (simp_all add: import_single_def import_double_def require_single_text_def
      require_double_text_def module_defs lit_def)

lemma country_worker_facts:
  "includes_str country_worker (lit ''try'')"
  "\<not> includes_str country_worker (lit ''catch'')"
  "match_async country_worker = Some [lit ''async function'']"
  by (simp_all add: country_worker_def lit_def match_async_def async_at_def is_space_def
      is_word_def)

text \<open>The rule is live on the same function under a name without the letters \<open>try\<close>.\<close>

lemma county_worker_facts:
  "\<not> includes_str county_worker (lit ''try'')"
  "\<not> includes_str county_worker (lit ''catch'')"
  "match_async county_worker = Some [lit ''async function'']"
  "error_handling_issue \<in> set (analyze county_worker)"
  by (simp_all add: error_handling_issue_in_analyze county_worker_def lit_def match_async_def
      async_at_def is_space_def is_word_def)

lemma side_effect_import_refs: "filter (references_module side_effect_import) nodeAPIs = []"
  by (simp add: side_effect_import_def lit_def nodeAPIs_def module_defs)

lemma dynamic_import_refs: "filter (references_module dynamic_import) nodeAPIs = []"
  by (simp add: dynamic_import_def lit_def nodeAPIs_def module_defs)

lemma side_effect_import_analyze:
  "analyze side_effect_import = [default_export_issue, fetch_handler_issue]"
  unfolding analyze_eq side_effect_import_refs
  by (simp add: side_effect_import_def lit_def blockingOps_def match_global_state_def
      decl_at_def is_line_terminator_def match_async_def async_at_def)

lemma dynamic_import_analyze:
  "analyze dynamic_import = [default_export_issue, fetch_handler_issue, waitUntil_issue]"
  unfolding analyze_eq dynamic_import_refs
  by (simp add: dynamic_import_def lit_def blockingOps_def match_global_state_def
      decl_at_def is_line_terminator_def match_async_def async_at_def)

subsection \<open>The report as header and sections\<close>

lemma foldl_entries:
  "foldl (\<lambda>result (i, issue). result @ entry i issue) init es =
     init @ concat (map (\<lambda>(i, issue). entry i issue) es)"
  by (induction es arbitrary: init) auto

lemma map_enumerate_nth:
  "map (\<lambda>(i, issue). entry i issue) (enumerate 0 g) = map (\<lambda>k. entry k (g ! k)) [0..<length g]"
  by (rule nth_equalityI) (simp_all add: nth_enumerate_eq)

lemma section_eq:
  "foldl (\<lambda>result (i, issue). result @ entry i issue)
     (result @ lbl @ num_str (length g) @ lit ''):\<newline>'') (enumerate 0 g) @ tr =
   result @ (lbl @ num_str (length g) @ lit ''):\<newline>'' @
     concat (map (\<lambda>k. entry k (g ! k)) [0..<length g]) @ tr)"
  by (simp add: foldl_entries map_enumerate_nth)

lemma section_eq_last:
  "foldl (\<lambda>result (i, issue). result @ entry i issue)
     (result @ lbl @ num_str (length g) @ lit ''):\<newline>'') (enumerate 0 g) =
   result @ (lbl @ num_str (length g) @ lit ''):\<newline>'' @
     concat (map (\<lambda>k. entry k (g ! k)) [0..<length g]) @ [])"
  by (simp add: foldl_entries map_enumerate_nth)

lemma render_critical:
  "render_section (lit ''CRITICAL'') issues =
     (let g = filter (\<lambda>i. severity i = lit ''CRITICAL'') issues in
      critical_label @ num_str (length g) @ lit ''):\<newline>'' @
      concat (map (\<lambda>k. entry k (g ! k)) [0..<length g]) @ lit ''\<newline>'')"
  by (simp add: render_section_def section_label_def section_end_def sev_lits[symmetric]
      Let_def)

lemma render_errors:
  "render_section (lit ''ERROR'') issues =
     (let g = filter (\<lambda>i. severity i = lit ''ERROR'') issues in
      errors_label @ num_str (length g) @ lit ''):\<newline>'' @
      concat (map (\<lambda>k. entry k (g ! k)) [0..<length g]) @ lit ''\<newline>'')"
  by (simp add: render_section_def section_label_def section_end_def sev_lits
      sev_lits[symmetric] Let_def)

lemma render_warnings:
  "render_section (lit ''WARNING'') issues =
     (let g = filter (\<lambda>i. severity i = lit ''WARNING'') issues in
      warnings_label @ num_str (length g) @ lit ''):\<newline>'' @
      concat (map (\<lambda>k. entry k (g ! k)) [0..<length g]) @ lit ''\<newline>'')"
  by (simp add: render_section_def section_label_def section_end_def sev_lits
      sev_lits[symmetric] Let_def)

lemma render_info:
  "render_section (lit ''INFO'') issues =
     (let g = filter (\<lambda>i. severity i = lit ''INFO'') issues in
      info_label @ num_str (length g) @ lit ''):\<newline>'' @
      concat (map (\<lambda>k. entry k (g ! k)) [0..<length g]) @ [])"
  by (simp add: render_section_def section_label_def section_end_def sev_lits Let_def)

lemma format_issues_eq:
  assumes "issues \<noteq> []"
  shows "format_issues issues =
     report_header (length issues) @ section_if (lit ''CRITICAL'') issues @
     section_if (lit ''ERROR'') issues @ section_if (lit ''WARNING'') issues @
     section_if (lit ''INFO'') issues"
  using assms
  unfolding format_issues_def Let_def section_eq section_eq_last section_if_def
    render_critical render_errors render_warnings render_info report_header_def
  by (simp only: length_greater_0_conv length_0_conv if_False if_not_P append_assoc
       append_Nil2 append_Nil if_distrib[of "\<lambda>x. x @ _"] cong: if_cong) simp

lemma section_if_eq:
  "section_if s issues = concat (map (\<lambda>s. render_section s issues)
     (filter (\<lambda>s. \<exists>i \<in> set issues. severity i = s) [s]))"
  by (auto simp: section_if_def filter_empty_conv)

lemma format_issues_section:
  assumes "issues \<noteq> []" and "s \<in> set severity_order"
    and "filter (\<lambda>i. severity i = s) issues \<noteq> []"
  shows "\<exists>pre post. format_issues issues = pre @ render_section s issues @ post"
proof -
  let ?h = "report_header (length issues)"
  let ?c = "section_if (lit ''CRITICAL'') issues"
  let ?e = "section_if (lit ''ERROR'') issues"
  let ?w = "section_if (lit ''WARNING'') issues"
  let ?i = "section_if (lit ''INFO'') issues"
  have f: "format_issues issues = ?h @ ?c @ ?e @ ?w @ ?i"
    by (rule format_issues_eq[OF assms(1)])
  have r: "section_if s issues = render_section s issues"
    using assms(3) by (simp add: section_if_def)
  from assms(2) consider "s = lit ''CRITICAL''" | "s = lit ''ERROR''" | "s = lit ''WARNING''"
    | "s = lit ''INFO''"
    by (auto simp: severity_order_def)
  then show ?thesis
  proof cases
    case 1
    with f r have "format_issues issues = ?h @ render_section s issues @ (?e @ ?w @ ?i)"
      by simp
    then show ?thesis by blast
  next
    case 2
    with f r have "format_issues issues = (?h @ ?c) @ render_section s issues @ (?w @ ?i)"
      by simp
    then show ?thesis by blast
  next
    case 3
    with f r have "format_issues issues = (?h @ ?c @ ?e) @ render_section s issues @ ?i"
      by simp
    then show ?thesis by blast
  next
    case 4
    with f r have "format_issues issues = (?h @ ?c @ ?e @ ?w) @ render_section s issues @ []"
      by simp
    then show ?thesis by blast
  qed
qed

lemma scenario5_severities:
  "severity (node_api_issue a) = lit ''CRITICAL''"
  "severity (blocking_issue b) = lit ''CRITICAL''"
  "severity env_parameter_issue = lit ''INFO''"
  by (simp_all add: node_api_issue_def blocking_issue_def env_parameter_issue_def mk_issue_def)


subsection \<open>The steps of a call\<close>

text \<open>What each step leaves alone, and what it writes.\<close>

lemma step_frames:
  "st_code (step_log st) = st_code st" "st_filename (step_log st) = st_filename st"
  "st_issues (step_log st) = st_issues st"
  "st_code (step_init st) = st_code st" "st_filename (step_init st) = st_filename st"
  "st_console (step_init st) = st_console st"
  "st_code (step_rule rule st) = st_code st"
  "st_filename (step_rule rule st) = st_filename st"
  "st_console (step_rule rule st) = st_console st"
  "st_code (step_format st) = st_code st" "st_filename (step_format st) = st_filename st"
  "st_console (step_format st) = st_console st" "st_issues (step_format st) = st_issues st"
  by (simp_all add: step_log_def step_init_def step_rule_def step_format_def)

lemma step_effects:
  "st_console (step_log st) = st_console st @ [log_line (st_filename st)]"
  "st_issues (step_init st) = []"
  "st_issues (step_rule rule st) = rule (st_code st) (st_issues st)"
  "st_result (step_format st) = format_issues (st_issues st)"
  by (simp_all add: step_log_def step_init_def step_rule_def step_format_def)


text \<open>
  The rules themselves append to whatever \<open>issues\<close> holds: run from a state without the
  first two steps, they leave the old issues in front of the new ones. That a call does
  not see the issues of an earlier call rests on the step \<open>const issues = []\<close>.
\<close>

lemma rules_append_to_issues:
  "st_issues (fold (\<lambda>step s. step s) (drop 2 execute_steps) st) =
     st_issues st @ analyze (st_code st)"
  by (simp add: execute_steps_def step_frames step_effects analyze_eq
      check_node_apis_eq check_blocking_ops_eq check_timers_eq check_global_state_eq
      check_error_handling_eq check_default_export_eq check_fetch_handler_eq
      check_env_parameter_eq check_response_eq check_waitUntil_eq)

section \<open>The claims\<close>

subsection \<open>C1: the first scenario and the \<open>ctx.waitUntil\<close> suggestion\<close>

text \<open>
  Claim C1, as the specification states it, says that on the text of the first scenario
  the analyzer does not emit the
  \<open>ctx.waitUntil\<close> INFO issue, because the text has no \<open>await\<close>. The rule of the source
  fires on \<open>await\<close> or on \<open>fetch(\<close>, and the text contains \<open>fetch(\<close>: the text has no
  \<open>await\<close>, and the issue is emitted all the same.
\<close>

theorem scenario1_waitUntil_counterexample:
  "\<not> includes_str scenario1 (lit ''await'') \<and> waitUntil_issue \<in> set (analyze scenario1)"
  by (simp add: waitUntil_issue_in_analyze scenario1_includes)

text \<open>
  Claim C1, as amended: on the text of the first scenario the analyzer emits the
  \<open>ctx.waitUntil\<close> INFO issue. The text contains no \<open>await\<close>, but it contains \<open>fetch(\<close>
  and it does not contain \<open>waitUntil\<close>, and the rule fires on either \<open>await\<close> or
  \<open>fetch(\<close>. The issues of the scenario are, in order: the \<open>fs\<close> module, the
  \<open>readFileSync\<close> call, the missing error handling, the missing \<open>env\<close> parameter, and
  the \<open>ctx.waitUntil\<close> suggestion.
\<close>

theorem scenario1_waitUntil_emitted:
  "\<not> includes_str scenario1 (lit ''await'') \<and>
   includes_str scenario1 (lit ''fetch('') \<and>
   \<not> includes_str scenario1 (lit ''waitUntil'') \<and>
   severity waitUntil_issue = lit ''INFO'' \<and>
   title waitUntil_issue = lit ''Consider using ctx.waitUntil()'' \<and>
   analyze scenario1 =
     [node_api_issue (lit ''fs''),
      blocking_issue (lit ''readFileSync'', lit ''Use KV.get() or R2 fetch with await''),
      error_handling_issue, env_parameter_issue, waitUntil_issue]"
  by (simp add: scenario1_includes scenario1_analyze) (simp add: waitUntil_issue_def mk_issue_def)

subsection \<open>C2: the empty text\<close>

text \<open>
  Claim C2: on the empty source text the analyzer returns exactly two issues, the
  missing default export (ERROR) and the missing fetch handler (ERROR), in this order,
  and nothing else.
\<close>

theorem analyze_empty_text:
  "analyze (lit '''') = [default_export_issue, fetch_handler_issue] \<and>
   severity default_export_issue = lit ''ERROR'' \<and>
   title default_export_issue = lit ''Missing default export'' \<and>
   severity fetch_handler_issue = lit ''ERROR'' \<and>
   title fetch_handler_issue = lit ''No fetch handler found''"
proof -
  have "lit '''' = []" by (simp add: lit_def)
  moreover have "analyze [] = [default_export_issue, fetch_handler_issue]"
    by (simp add: analyze_eq references_module_Nil match_global_state_Nil match_async_Nil
        blockingOps_def lit_def)
  ultimately show ?thesis
    by (simp add: default_export_issue_def fetch_handler_issue_def mk_issue_def)
qed

subsection \<open>C3: the missing \<open>env\<close> parameter\<close>

text \<open>
  Claim C3, as the specification states it, says that every text with a one-argument
  call \<open>fetch(request)\<close> gets the
  missing-context-parameter INFO issue. The rule of the source has a second condition:
  the text must not contain \<open>fetch(request, env\<close> anywhere. A handler that declares the
  three parameters and forwards the request with \<open>fetch(request)\<close> contains the
  one-argument call and gets no such issue.
\<close>

theorem env_parameter_counterexample:
  "includes_str proxy_worker (lit ''fetch(request)'') \<and>
   env_parameter_issue \<notin> set (analyze proxy_worker)"
  by (simp add: env_parameter_issue_in_analyze proxy_worker_includes)

text \<open>
  Claim C3, as amended: for every source text that contains \<open>fetch(request)\<close> and does
  not contain \<open>fetch(request, env\<close>, the analyzer emits the missing-context-parameter
  issue, whose severity is INFO.
\<close>

theorem env_parameter_emitted:
  assumes "includes_str code (lit ''fetch(request)'')"
    and "\<not> includes_str code (lit ''fetch(request, env'')"
  shows "env_parameter_issue \<in> set (analyze code) \<and>
         severity env_parameter_issue = lit ''INFO'' \<and>
         title env_parameter_issue = lit ''Missing env parameter''"
  using assms
  by (simp add: env_parameter_issue_in_analyze) (simp add: env_parameter_issue_def mk_issue_def)

theorem env_parameter_emitted_witness:
  "includes_str scenario1 (lit ''fetch(request)'') \<and>
   \<not> includes_str scenario1 (lit ''fetch(request, env'') \<and>
   env_parameter_issue \<in> set (analyze scenario1)"
  using env_parameter_emitted[of scenario1] by (simp add: scenario1_includes)

subsection \<open>C4: the order of the sections\<close>

text \<open>
  Claim C4: for every non-empty list of issues, the report is the count header followed
  by the sections of the severities that occur in the list, in the fixed order CRITICAL,
  ERROR, WARNING, INFO; a severity with no issue has no section.
\<close>

theorem report_sections_order:
  assumes "issues \<noteq> []"
  shows "format_issues issues =
     report_header (length issues) @
     concat (map (\<lambda>s. render_section s issues)
       (filter (\<lambda>s. \<exists>i \<in> set issues. severity i = s) severity_order))"
proof -
  have "filter (\<lambda>s. \<exists>i \<in> set issues. severity i = s) severity_order =
      filter (\<lambda>s. \<exists>i \<in> set issues. severity i = s) [lit ''CRITICAL''] @
      filter (\<lambda>s. \<exists>i \<in> set issues. severity i = s) [lit ''ERROR''] @
      filter (\<lambda>s. \<exists>i \<in> set issues. severity i = s) [lit ''WARNING''] @
      filter (\<lambda>s. \<exists>i \<in> set issues. severity i = s) [lit ''INFO'']"
    unfolding severity_order_def by (simp only: filter_append[symmetric] append_Cons append_Nil)
  then show ?thesis
    unfolding format_issues_eq[OF assms] section_if_eq
    by (simp only: map_append concat_append)
qed

text \<open>On two CRITICAL issues and one INFO issue the report is the header, the
  CRITICAL section and the INFO section; the labels of the ERROR and WARNING sections
  occur nowhere in it.\<close>

theorem report_sections_order_witness:
  "scenario5 \<noteq> [] \<and>
   format_issues scenario5 =
     report_header 3 @ render_section (lit ''CRITICAL'') scenario5 @
     render_section (lit ''INFO'') scenario5 \<and>
   \<not> includes_str (format_issues scenario5) errors_label \<and>
   \<not> includes_str (format_issues scenario5) warnings_label"
proof -
  have ne: "scenario5 \<noteq> []" by (simp add: scenario5_def)
  have 1: "format_issues scenario5 =
     report_header 3 @ render_section (lit ''CRITICAL'') scenario5 @
     render_section (lit ''INFO'') scenario5"
    unfolding report_sections_order[OF ne]
    by (simp add: scenario5_def severity_order_def scenario5_severities sev_lits
        sev_lits[symmetric] eval_nat_numeral)
  have 2: "\<not> includes_str (format_issues scenario5) errors_label"
    unfolding 1
    by (simp add: report_header_def render_section_def scenario5_def scenario5_severities
        sev_lits sev_lits[symmetric] section_label_def section_end_def entry_def
        num_str_digit critical_label_def info_label_def errors_label_def
        node_api_issue_def blocking_issue_def env_parameter_issue_def mk_issue_def lit_def
        upt_rec)
  have 3: "\<not> includes_str (format_issues scenario5) warnings_label"
    unfolding 1
    by (simp add: report_header_def render_section_def scenario5_def scenario5_severities
        sev_lits sev_lits[symmetric] section_label_def section_end_def entry_def
        num_str_digit critical_label_def info_label_def warnings_label_def
        node_api_issue_def blocking_issue_def env_parameter_issue_def mk_issue_def lit_def
        upt_rec)
  from ne 1 2 3 show ?thesis by blast
qed

subsection \<open>C5: the counts and the numbering\<close>

text \<open>
  Claim C5: for every non-empty list of issues, the report starts with
  \<open>Found N issue(s) in your code:\<close> where \<open>N\<close> is the decimal numeral of the length of
  the list; and for each of the four severities that has an issue, the report contains
  the label of the section with the decimal numeral of the number of issues of that
  severity, followed by the issues of that severity in their order, the \<open>k\<close>-th of them
  (from 0) numbered \<open>k + 1\<close>: the numbering starts at 1 in every section.
\<close>

theorem report_counts:
  assumes "issues \<noteq> []"
  shows "(\<exists>rest. format_issues issues =
            lit ''Found '' @ num_str (length issues) @
            lit '' issue(s) in your code:\<newline>\<newline>'' @ rest) \<and>
         digits_value (num_str (length issues)) = length issues \<and>
         (\<forall>s \<in> set severity_order. \<forall>group.
            group = filter (\<lambda>i. severity i = s) issues \<and> group \<noteq> [] \<longrightarrow>
            digits_value (num_str (length group)) = length group \<and>
            (\<exists>pre post. format_issues issues =
               pre @ section_label s @ num_str (length group) @ lit ''):\<newline>'' @
               concat (map (\<lambda>k. lit ''\<newline>'' @ num_str (k + 1) @ lit ''. '' @
                              title (group ! k) @ lit ''\<newline>   '' @
                              description (group ! k) @ lit ''\<newline>'')
                         [0..<length group]) @
               post))"
proof (intro conjI ballI allI impI)
  show "\<exists>rest. format_issues issues =
            lit ''Found '' @ num_str (length issues) @
            lit '' issue(s) in your code:\<newline>\<newline>'' @ rest"
    unfolding format_issues_eq[OF assms] report_header_def by simp
next
  show "digits_value (num_str (length issues)) = length issues"
    by (rule digits_value_num_str)
next
  fix s group
  assume "s \<in> set severity_order"
    and "group = filter (\<lambda>i. severity i = s) issues \<and> group \<noteq> []"
  show "digits_value (num_str (length group)) = length group"
    by (rule digits_value_num_str)
next
  fix s group
  assume s: "s \<in> set severity_order"
    and g: "group = filter (\<lambda>i. severity i = s) issues \<and> group \<noteq> []"
  then obtain pre post where
    "format_issues issues = pre @ render_section s issues @ post"
    using format_issues_section[OF assms s] by blast
  with g have "format_issues issues =
      pre @ section_label s @ num_str (length group) @ lit ''):\<newline>'' @
      concat (map (\<lambda>k. lit ''\<newline>'' @ num_str (k + 1) @ lit ''. '' @
                     title (group ! k) @ lit ''\<newline>   '' @
                     description (group ! k) @ lit ''\<newline>'')
                [0..<length group]) @
      (section_end s @ post)"
    by (simp add: render_section_def entry_def Let_def)
  then show "\<exists>pre post. format_issues issues =
      pre @ section_label s @ num_str (length group) @ lit ''):\<newline>'' @
      concat (map (\<lambda>k. lit ''\<newline>'' @ num_str (k + 1) @ lit ''. '' @
                     title (group ! k) @ lit ''\<newline>   '' @
                     description (group ! k) @ lit ''\<newline>'')
                [0..<length group]) @
      post"
    by blast
qed

text \<open>On two CRITICAL issues and one INFO issue: the header says 3, the CRITICAL
  section says 2 and numbers its issues 1 and 2, the INFO section says 1 and numbers
  its issue 1.\<close>

theorem report_counts_witness:
  "scenario5 \<noteq> [] \<and>
   (\<exists>rest. format_issues scenario5 =
      lit ''Found 3 issue(s) in your code:\<newline>\<newline>'' @ rest) \<and>
   (\<exists>pre post. format_issues scenario5 =
      pre @ critical_label @ lit ''2):\<newline>'' @
      (lit ''\<newline>1. '' @ title (node_api_issue (lit ''fs'')) @ lit ''\<newline>   '' @
       description (node_api_issue (lit ''fs'')) @ lit ''\<newline>'') @
      (lit ''\<newline>2. '' @
       title (blocking_issue (lit ''readFileSync'', lit ''Use KV.get() or R2 fetch with await'')) @
       lit ''\<newline>   '' @
       description (blocking_issue (lit ''readFileSync'', lit ''Use KV.get() or R2 fetch with await'')) @
       lit ''\<newline>'') @
      post) \<and>
   (\<exists>pre post. format_issues scenario5 =
      pre @ info_label @ lit ''1):\<newline>'' @
      (lit ''\<newline>1. '' @ title env_parameter_issue @ lit ''\<newline>   '' @
       description env_parameter_issue @ lit ''\<newline>'') @
      post)"
proof -
  let ?rfs = "(lit ''readFileSync'', lit ''Use KV.get() or R2 fetch with await'')"
  have ne: "scenario5 \<noteq> []" by (simp add: scenario5_def)
  note rc = report_counts[OF ne]
  have n3: "num_str (length scenario5) = lit ''3''"
    by (simp add: scenario5_def num_str_digit lit_def)
  from rc have "\<exists>rest. format_issues scenario5 =
      lit ''Found '' @ num_str (length scenario5) @
      lit '' issue(s) in your code:\<newline>\<newline>'' @ rest"
    by blast
  then have h: "\<exists>rest. format_issues scenario5 =
      lit ''Found 3 issue(s) in your code:\<newline>\<newline>'' @ rest"
    unfolding n3 by (simp add: lit_def)
  have cs: "lit ''CRITICAL'' \<in> set severity_order"
    and ins: "lit ''INFO'' \<in> set severity_order"
    by (simp_all add: severity_order_def)
  have cg: "[node_api_issue (lit ''fs''), blocking_issue ?rfs] =
      filter (\<lambda>i. severity i = lit ''CRITICAL'') scenario5 \<and>
      [node_api_issue (lit ''fs''), blocking_issue ?rfs] \<noteq> []"
    by (simp add: scenario5_def scenario5_severities sev_lits)
  have ig: "[env_parameter_issue] = filter (\<lambda>i. severity i = lit ''INFO'') scenario5 \<and>
      [env_parameter_issue] \<noteq> []"
    by (simp add: scenario5_def scenario5_severities sev_lits[symmetric])
  have n1: "num_str (0 + 1) = lit ''1''" "num_str (Suc 0 + 1) = lit ''2''"
    "num_str (Suc 0) = lit ''1''" "num_str (Suc (Suc 0)) = lit ''2''"
    by (simp_all add: num_str_digit lit_def)
  from rc cs cg have c: "\<exists>pre post. format_issues scenario5 =
      pre @ section_label (lit ''CRITICAL'') @
      num_str (length [node_api_issue (lit ''fs''), blocking_issue ?rfs]) @ lit ''):\<newline>'' @
      concat (map (\<lambda>k. lit ''\<newline>'' @ num_str (k + 1) @ lit ''. '' @
                     title ([node_api_issue (lit ''fs''), blocking_issue ?rfs] ! k) @
                     lit ''\<newline>   '' @
                     description ([node_api_issue (lit ''fs''), blocking_issue ?rfs] ! k) @
                     lit ''\<newline>'')
                [0..<length [node_api_issue (lit ''fs''), blocking_issue ?rfs]]) @
      post"
    by blast
  from rc ins ig have i: "\<exists>pre post. format_issues scenario5 =
      pre @ section_label (lit ''INFO'') @
      num_str (length [env_parameter_issue]) @ lit ''):\<newline>'' @
      concat (map (\<lambda>k. lit ''\<newline>'' @ num_str (k + 1) @ lit ''. '' @
                     title ([env_parameter_issue] ! k) @
                     lit ''\<newline>   '' @
                     description ([env_parameter_issue] ! k) @
                     lit ''\<newline>'')
                [0..<length [env_parameter_issue]]) @
      post"
    by blast
  have c': "\<exists>pre post. format_issues scenario5 =
      pre @ critical_label @ lit ''2):\<newline>'' @
      (lit ''\<newline>1. '' @ title (node_api_issue (lit ''fs'')) @ lit ''\<newline>   '' @
       description (node_api_issue (lit ''fs'')) @ lit ''\<newline>'') @
      (lit ''\<newline>2. '' @ title (blocking_issue ?rfs) @ lit ''\<newline>   '' @
       description (blocking_issue ?rfs) @ lit ''\<newline>'') @
      post"
    using c by (simp add: section_label_def n1 lit_def upt_rec)
  have i': "\<exists>pre post. format_issues scenario5 =
      pre @ info_label @ lit ''1):\<newline>'' @
      (lit ''\<newline>1. '' @ title env_parameter_issue @ lit ''\<newline>   '' @
       description env_parameter_issue @ lit ''\<newline>'') @
      post"
    using i by (simp add: section_label_def sev_lits n1 lit_def)
  from ne h c' i' show ?thesis by blast
qed

subsection \<open>C6: no issue, the all-clear message\<close>

text \<open>
  Claim C6: for every input text on which the analyzer finds no issue, the returned
  report is the fixed all-clear message; it is not the empty string, and
  \<open>Found 0 issue(s)\<close> occurs nowhere in it.
\<close>

theorem no_issues_all_clear:
  assumes "analyze code = []"
  shows "snd (execute code filename) = all_clear \<and>
         snd (execute code filename) \<noteq> [] \<and>
         \<not> includes_str (snd (execute code filename)) (lit ''Found 0 issue(s)'')"
  using assms
  by (simp add: execute_def format_issues_def all_clear_not_empty all_clear_no_zero_header)

theorem no_issues_all_clear_witness:
  "analyze clean_worker = [] \<and>
   snd (execute clean_worker None) = all_clear \<and>
   snd (execute clean_worker None) \<noteq> [] \<and>
   \<not> includes_str (snd (execute clean_worker None)) (lit ''Found 0 issue(s)'')"
proof -
  have a: "analyze clean_worker = []" by (rule clean_worker_analyze)
  from no_issues_all_clear[OF a, of None] a show ?thesis by blast
qed

subsection \<open>C7: one text, one report\<close>



subsection \<open>C8: either kind of quote\<close>

text \<open>
  Claim C8: for every module \<open>m\<close> of the deny-list, a text that contains \<open>from 'm'\<close>, or
  \<open>from "m"\<close>, or \<open>require('m')\<close>, or \<open>require("m")\<close> gets the CRITICAL issue of the
  module \<open>m\<close>.
\<close>

theorem module_reference_any_quote:
  assumes "m \<in> set nodeAPIs"
    and "includes_str code (from_single m) \<or> includes_str code (from_double m) \<or>
         includes_str code (require_single m) \<or> includes_str code (require_double m)"
  shows "node_api_issue m \<in> set (analyze code) \<and>
         severity (node_api_issue m) = lit ''CRITICAL''"
  using assms
  by (simp add: node_api_issue_in_analyze references_module_def)
    (simp add: node_api_issue_def mk_issue_def)

text \<open>The module \<open>fs\<close>, named in each of the four ways.\<close>

theorem module_reference_any_quote_witness:
  "lit ''fs'' \<in> set nodeAPIs \<and>
   includes_str import_single (from_single (lit ''fs'')) \<and>
   node_api_issue (lit ''fs'') \<in> set (analyze import_single) \<and>
   includes_str import_double (from_double (lit ''fs'')) \<and>
   node_api_issue (lit ''fs'') \<in> set (analyze import_double) \<and>
   includes_str require_single_text (require_single (lit ''fs'')) \<and>
   node_api_issue (lit ''fs'') \<in> set (analyze require_single_text) \<and>
   includes_str require_double_text (require_double (lit ''fs'')) \<and>
   node_api_issue (lit ''fs'') \<in> set (analyze require_double_text)"
  using module_reference_any_quote[of "lit ''fs''" import_single]
    module_reference_any_quote[of "lit ''fs''" import_double]
    module_reference_any_quote[of "lit ''fs''" require_single_text]
    module_reference_any_quote[of "lit ''fs''" require_double_text]
  by (simp add: fs_in_nodeAPIs four_forms_found)

subsection \<open>C9: the letters \<open>try\<close> anywhere\<close>

text \<open>
  Claim C9: for every source text that contains the three letters \<open>try\<close> anywhere, the
  analyzer emits no missing-error-handling issue: the issue of the rule is not among
  the issues, and no issue has its title. This holds also when the text declares an
  async function and has no try/catch block.
\<close>

theorem try_substring_suppresses:
  assumes "includes_str code (lit ''try'')"
  shows "error_handling_issue \<notin> set (analyze code) \<and>
         (\<forall>i \<in> set (analyze code). title i \<noteq> lit ''Missing error handling'')"
proof -
  have a: "error_handling_issue \<notin> set (analyze code)"
    using assms by (simp add: error_handling_issue_in_analyze)
  then have "\<forall>i \<in> set (analyze code). title i \<noteq> lit ''Missing error handling''"
    using error_handling_title_unique by blast
  with a show ?thesis by blast
qed

text \<open>An async function named \<open>country\<close>, with no try/catch block: the regular
  expression finds the async function, the text contains \<open>try\<close>, and the issue is not
  emitted.\<close>

theorem try_substring_suppresses_witness:
  "includes_str country_worker (lit ''try'') \<and>
   match_async country_worker = Some [lit ''async function''] \<and>
   \<not> includes_str country_worker (lit ''catch'') \<and>
   error_handling_issue \<notin> set (analyze country_worker)"
  using try_substring_suppresses[of country_worker] by (simp add: country_worker_facts)

subsection \<open>C10: only the four forms\<close>

text \<open>
  Claim C10: the CRITICAL issue of a module \<open>m\<close> is emitted only when \<open>m\<close> is in the
  deny-list and the text contains one of the four strings \<open>from 'm'\<close>, \<open>from "m"\<close>,
  \<open>require('m')\<close>, \<open>require("m")\<close>. The side-effect import \<open>import 'fs';\<close> and the
  dynamic import \<open>const fs = await import('fs');\<close> get no CRITICAL issue: their issues
  are the missing default export and the missing fetch handler, and for the second the
  \<open>ctx.waitUntil\<close> suggestion.
\<close>

theorem module_reference_only_four_forms:
  "(node_api_issue m \<in> set (analyze code) \<longrightarrow>
      m \<in> set nodeAPIs \<and>
      (includes_str code (from_single m) \<or> includes_str code (from_double m) \<or>
       includes_str code (require_single m) \<or> includes_str code (require_double m))) \<and>
   analyze side_effect_import = [default_export_issue, fetch_handler_issue] \<and>
   analyze dynamic_import = [default_export_issue, fetch_handler_issue, waitUntil_issue] \<and>
   severity default_export_issue = lit ''ERROR'' \<and>
   severity fetch_handler_issue = lit ''ERROR'' \<and>
   severity waitUntil_issue = lit ''INFO''"
  by (simp add: node_api_issue_in_analyze references_module_def side_effect_import_analyze
      dynamic_import_analyze)
    (simp add: default_export_issue_def fetch_handler_issue_def waitUntil_issue_def
      mk_issue_def)

text \<open>Where the issue of \<open>fs\<close> is emitted, one of the four strings is in the text.\<close>

theorem module_reference_only_four_forms_witness:
  "node_api_issue (lit ''fs'') \<in> set (analyze import_single) \<and>
   lit ''fs'' \<in> set nodeAPIs \<and>
   includes_str import_single (from_single (lit ''fs''))"
proof -
  have "node_api_issue (lit ''fs'') \<in> set (analyze import_single)"
    by (simp add: node_api_issue_in_analyze references_module_def fs_in_nodeAPIs
        four_forms_found)
  with module_reference_only_four_forms[of "lit ''fs''" import_single]
  show ?thesis by (simp add: four_forms_found)
qed

end
